theory Spec2Isabelle
  imports Complex_Main
begin

section \<open>Floating-point values of the tensor library\<close>

text \<open>
  The script computes on floating-point tensors. A value is a finite number, a negative
  zero, an infinity or a NaN; \<open>Fin 0\<close> is the positive zero. The operations follow
  IEEE 754 on the special values (division by zero gives an infinity, zero times infinity
  gives NaN, a result too large for the format overflows to an infinity). Finite results
  inside the range are kept as exact reals: rounding and underflow are not modelled.
  The framework's default precision is binary32: its largest finite number is
  \<open>2^128 - 2^104\<close>, and rounding to nearest overflows from \<open>2^128 - 2^103\<close> on.
\<close>

datatype fl = Fin real | NZero | PInf | NInf | NaN

definition overflow_threshold :: real where
  "overflow_threshold = 2 ^ 128 - 2 ^ 103"

fun is_nan :: "fl \<Rightarrow> bool" where
  "is_nan NaN = True"
| "is_nan _ = False"

fun is_inf :: "fl \<Rightarrow> bool" where
  "is_inf PInf = True"
| "is_inf NInf = True"
| "is_inf _ = False"

fun is_zero :: "fl \<Rightarrow> bool" where
  "is_zero (Fin r) = (r = 0)"
| "is_zero NZero = True"
| "is_zero _ = False"

fun is_finite :: "fl \<Rightarrow> bool" where
  "is_finite (Fin r) = True"
| "is_finite NZero = True"
| "is_finite _ = False"

text \<open>The sign bit: \<open>True\<close> for a negative value.\<close>

fun sign_bit :: "fl \<Rightarrow> bool" where
  "sign_bit (Fin r) = (r < 0)"
| "sign_bit NZero = True"
| "sign_bit NInf = True"
| "sign_bit _ = False"

text \<open>The number a finite value stands for.\<close>

fun mag :: "fl \<Rightarrow> real" where
  "mag (Fin r) = r"
| "mag _ = 0"

definition fzero :: "bool \<Rightarrow> fl" where
  "fzero s = (if s then NZero else Fin 0)"

definition finf :: "bool \<Rightarrow> fl" where
  "finf s = (if s then NInf else PInf)"

definition rnd :: "real \<Rightarrow> fl" where
  "rnd r =
     (if overflow_threshold \<le> r then PInf
      else if r \<le> - overflow_threshold then NInf
      else Fin r)"

fun fneg :: "fl \<Rightarrow> fl" where
  "fneg (Fin r) = (if r = 0 then NZero else Fin (- r))"
| "fneg NZero = Fin 0"
| "fneg PInf = NInf"
| "fneg NInf = PInf"
| "fneg NaN = NaN"

definition fmul :: "fl \<Rightarrow> fl \<Rightarrow> fl" where
  "fmul a b =
     (if is_nan a \<or> is_nan b then NaN
      else if (is_zero a \<and> is_inf b) \<or> (is_inf a \<and> is_zero b) then NaN
      else if is_inf a \<or> is_inf b then finf (sign_bit a \<noteq> sign_bit b)
      else if is_zero a \<or> is_zero b then fzero (sign_bit a \<noteq> sign_bit b)
      else rnd (mag a * mag b))"

definition fdiv :: "fl \<Rightarrow> fl \<Rightarrow> fl" where
  "fdiv a b =
     (if is_nan a \<or> is_nan b then NaN
      else if (is_zero a \<and> is_zero b) \<or> (is_inf a \<and> is_inf b) then NaN
      else if is_inf a \<or> is_zero b then finf (sign_bit a \<noteq> sign_bit b)
      else if is_zero a \<or> is_inf b then fzero (sign_bit a \<noteq> sign_bit b)
      else rnd (mag a / mag b))"

definition fadd :: "fl \<Rightarrow> fl \<Rightarrow> fl" where
  "fadd a b =
     (if is_nan a \<or> is_nan b then NaN
      else if is_inf a \<and> is_inf b then (if sign_bit a = sign_bit b then a else NaN)
      else if is_inf a then a
      else if is_inf b then b
      else if is_zero a \<and> is_zero b then fzero (sign_bit a \<and> sign_bit b)
      else if mag a + mag b = 0 then Fin 0
      else rnd (mag a + mag b))"

definition fsub :: "fl \<Rightarrow> fl \<Rightarrow> fl" where
  "fsub a b = fadd a (fneg b)"

section \<open>Column tensors\<close>

text \<open>
  A tensor of shape \<open>(N, 1)\<close> is the list of its \<open>N\<close> entries. A Python scalar is
  broadcast over a tensor; two tensors combine entry by entry when their shapes agree,
  a tensor with one row is broadcast, and any other pair of shapes raises.
\<close>

datatype error = Raised string

type_synonym column = "fl list"

definition bindE :: "error + 'a \<Rightarrow> ('a \<Rightarrow> error + 'b) \<Rightarrow> error + 'b" where
  "bindE m f = (case m of Inl e \<Rightarrow> Inl e | Inr v \<Rightarrow> f v)"

definition s_mul :: "fl \<Rightarrow> column \<Rightarrow> column" where
  "s_mul c ts = map (fmul c) ts"

definition s_div :: "fl \<Rightarrow> column \<Rightarrow> column" where
  "s_div c ts = map (fdiv c) ts"

definition elementwise :: "(fl \<Rightarrow> fl \<Rightarrow> fl) \<Rightarrow> column \<Rightarrow> column \<Rightarrow> error + column" where
  "elementwise f a b =
     (if length a = length b then Inr (map2 f a b)
      else if length a = 1 then Inr (map (f (hd a)) b)
      else if length b = 1 then Inr (map (\<lambda>v. f v (hd b)) a)
      else Inl (Raised ''shape mismatch''))"

definition t_add :: "column \<Rightarrow> column \<Rightarrow> error + column" where
  "t_add = elementwise fadd"

definition t_sub :: "column \<Rightarrow> column \<Rightarrow> error + column" where
  "t_sub = elementwise fsub"

definition t_mul :: "column \<Rightarrow> column \<Rightarrow> error + column" where
  "t_mul = elementwise fmul"

section \<open>Domain and physical parameters\<close>

definition L :: fl where
  "L = Fin 1"

definition T_final :: fl where
  "T_final = Fin 1"

definition u :: fl where
  "u = Fin 1"

definition D :: fl where
  "D = Fin (1 / 100)"

definition alpha :: fl where
  "alpha = Fin (1 / 100)"

definition k :: fl where
  "k = Fin 10"

definition Ea :: fl where
  "Ea = Fin 50"

definition R :: fl where
  "R = Fin 1"

definition Q :: fl where
  "Q = Fin 10"

section \<open>The PDE residual\<close>

text \<open>
  A batch of network outputs is the list of its rows \<open>(Y, temp)\<close>; a batch of inputs is
  the list of its rows \<open>(x, t)\<close>. The derivatives come from the framework's automatic
  differentiation, which the residual takes as the two functions \<open>jacobian\<close> and
  \<open>hessian\<close>; each returns a column.
\<close>

type_synonym batch = "(fl \<times> fl) list"

type_synonym jacobian_fn = "batch \<Rightarrow> batch \<Rightarrow> nat \<Rightarrow> nat \<Rightarrow> column"

type_synonym hessian_fn = "batch \<Rightarrow> batch \<Rightarrow> nat \<Rightarrow> nat \<Rightarrow> nat \<Rightarrow> column"

text \<open>
  The exponential is asked of the framework as \<open>dde.math.exp\<close>. The framework's top-level
  module has no attribute \<open>math\<close>, so the lookup raises AttributeError; no exponential
  function is obtained and its argument is never evaluated.
\<close>

definition dde_math_exp :: "error + (column \<Rightarrow> column)" where
  "dde_math_exp = Inl (Raised ''AttributeError'')"

text \<open>
  The reaction rate of \<open>pde\<close>: the left factor \<open>k * Y\<close> is computed first, then the
  exponential is looked up and applied, then the two are multiplied.
\<close>

definition reaction_rate :: "column \<Rightarrow> column \<Rightarrow> error + column" where
  "reaction_rate Y temp =
     (let scaled = s_mul k Y
      in bindE dde_math_exp (\<lambda>exp_fn.
         t_mul scaled (exp_fn (s_div (fneg Ea) (s_mul R temp)))))"

definition pde :: "jacobian_fn \<Rightarrow> hessian_fn \<Rightarrow> batch \<Rightarrow> batch \<Rightarrow> error + (column \<times> column)" where
  "pde jacobian hessian x y =
     (let Y = map fst y;
          temp = map snd y;
          Y_t = jacobian y x 0 1;
          Y_x = jacobian y x 0 0;
          Y_xx = hessian y x 0 0 0;
          T_t = jacobian y x 1 1;
          T_x = jacobian y x 1 0;
          T_xx = hessian y x 1 0 0
      in bindE (reaction_rate Y temp) (\<lambda>rate.
         bindE (bindE (bindE (t_add Y_t (s_mul u Y_x)) (\<lambda>a. t_sub a (s_mul D Y_xx)))
                  (\<lambda>b. t_add b rate)) (\<lambda>eq_Y.
         bindE (bindE (bindE (t_add T_t (s_mul u T_x)) (\<lambda>a. t_sub a (s_mul alpha T_xx)))
                  (\<lambda>b. t_sub b (s_mul Q rate))) (\<lambda>eq_T.
         Inr (eq_Y, eq_T)))))"

section \<open>Initial and boundary conditions\<close>

text \<open>
  A target-value function receives the batch of points and returns either one Python
  scalar, which the framework broadcasts, or an array with one row per point.
\<close>

datatype target = Scalar fl | Array "fl list"

definition init_cond_Y :: "batch \<Rightarrow> target" where
  "init_cond_Y x = Array (replicate (length x) (Fin 1))"

definition init_cond_T :: "batch \<Rightarrow> target" where
  "init_cond_T x = Array (replicate (length x) (Fin 1))"

text \<open>
  NumPy's closeness test with its default tolerances: two finite numbers are close when
  \<open>\<bar>a - b\<bar> \<le> atol + rtol * \<bar>b\<bar>\<close>; an infinity is close to itself only, and a NaN
  to nothing.
\<close>

definition rtol :: real where
  "rtol = 1 / 10 ^ 5"

definition atol :: real where
  "atol = 1 / 10 ^ 8"

definition isclose :: "fl \<Rightarrow> fl \<Rightarrow> bool" where
  "isclose a b =
     (if is_finite a \<and> is_finite b then \<bar>mag a - mag b\<bar> \<le> atol + rtol * \<bar>mag b\<bar>
      else is_inf a \<and> a = b)"

text \<open>
  A point is the list of its coordinates, the spatial one first. Python's \<open>and\<close>
  returns its left operand when that is false and does not evaluate the right one;
  reading coordinate 0 of a point without coordinates raises IndexError.
\<close>

definition boundary_left :: "fl list \<Rightarrow> bool \<Rightarrow> error + bool" where
  "boundary_left x on_boundary =
     (if on_boundary
      then (case x of [] \<Rightarrow> Inl (Raised ''IndexError'') | x0 # _ \<Rightarrow> Inr (isclose x0 (Fin 0)))
      else Inr False)"

definition boundary_right :: "fl list \<Rightarrow> bool \<Rightarrow> error + bool" where
  "boundary_right x on_boundary =
     (if on_boundary
      then (case x of [] \<Rightarrow> Inl (Raised ''IndexError'') | x0 # _ \<Rightarrow> Inr (isclose x0 L))
      else Inr False)"

section \<open>The objects of the framework that the script builds\<close>

datatype geometry = Interval fl fl

datatype timedomain = TimeDomain fl fl

datatype geomtime = GeometryXTime geometry timedomain

datatype condition =
    DirichletBC (geom: geomtime) (func: "batch \<Rightarrow> target")
      (on_region: "fl list \<Rightarrow> bool \<Rightarrow> error + bool") (component: nat)
  | IC (geom: geomtime) (func: "batch \<Rightarrow> target")
      (on_region: "fl list \<Rightarrow> bool \<Rightarrow> error + bool") (component: nat)

fun is_initial :: "condition \<Rightarrow> bool" where
  "is_initial (IC g f r c) = True"
| "is_initial (DirichletBC g f r c) = False"

record time_pde =
  geometryxtime :: geomtime
  pde_residual :: "jacobian_fn \<Rightarrow> hessian_fn \<Rightarrow> batch \<Rightarrow> batch \<Rightarrow> error + (column \<times> column)"
  ic_bcs :: "condition list"
  num_domain :: nat
  num_boundary :: nat
  num_initial :: nat
  solution :: "(batch \<Rightarrow> batch) option"
  num_test :: nat

datatype network = FNN (layer_sizes: "nat list") (activation: string) (kernel_initializer: string)

datatype model = Model (model_data: time_pde) (model_net: network)

text \<open>
  The effects of the script are its calls of the model's methods, with the keyword
  arguments it passes. Training is the framework's: the script sees either an exception
  or the loss history.
\<close>

datatype kwarg = Lr real | Iterations nat | Callbacks "string list"

datatype call =
    Compile (call_model: model) string "kwarg list"
  | Train (call_model: model) "kwarg list"
  | Save (call_model: model) string

type_synonym trainer = "model \<Rightarrow> kwarg list \<Rightarrow> error + fl list"

fun is_save :: "call \<Rightarrow> bool" where
  "is_save (Save m name) = True"
| "is_save _ = False"

fun is_train :: "call \<Rightarrow> bool" where
  "is_train (Train m kw) = True"
| "is_train _ = False"

section \<open>The entry point\<close>

text \<open>
  The first three statements of \<open>main\<close> build the space-time domain from the two module
  constants; the constructors check nothing and raise nothing.
\<close>

definition make_domain :: "fl \<Rightarrow> fl \<Rightarrow> error + geomtime" where
  "make_domain l t =
     (let spatial_domain = Interval (Fin 0) l;
          temporal_domain = TimeDomain (Fin 0) t
      in Inr (GeometryXTime spatial_domain temporal_domain))"

text \<open>The conditions, the data, the network and the model, as \<open>main\<close> builds them.\<close>

definition assemble :: "geomtime \<Rightarrow> model" where
  "assemble geomtime =
     (let bc_Y_left = DirichletBC geomtime (\<lambda>x. Scalar (Fin 1)) boundary_left 0;
          bc_Y_right = DirichletBC geomtime (\<lambda>x. Scalar (Fin 0)) boundary_right 0;
          bc_T_left = DirichletBC geomtime (\<lambda>x. Scalar (Fin 1)) boundary_left 1;
          bc_T_right = DirichletBC geomtime (\<lambda>x. Scalar (Fin 1)) boundary_right 1;
          ic_Y = IC geomtime init_cond_Y (\<lambda>_ on_initial. Inr on_initial) 0;
          ic_T = IC geomtime init_cond_T (\<lambda>_ on_initial. Inr on_initial) 1;
          data = \<lparr> geometryxtime = geomtime,
                   pde_residual = pde,
                   ic_bcs = [ic_Y, ic_T, bc_Y_left, bc_Y_right, bc_T_left, bc_T_right],
                   num_domain = 2540,
                   num_boundary = 80,
                   num_initial = 160,
                   solution = None,
                   num_test = 10000 \<rparr>;
          net = FNN ([2] @ replicate 3 50 @ [2]) ''tanh'' ''Glorot normal''
      in Model data net)"

text \<open>
  \<open>main\<close> returns the outcome of the run and the calls it made, in order. An exception
  of the training call ends the run there.
\<close>

definition main :: "trainer \<Rightarrow> (error + unit) \<times> call list" where
  "main train =
     (case make_domain L T_final of
        Inl e \<Rightarrow> (Inl e, [])
      | Inr geomtime \<Rightarrow>
          (let model = assemble geomtime;
               compiled = [Compile model ''adam'' [Lr (1 / 1000)]];
               trained = compiled @ [Train model [Iterations 5000]]
           in case train model [Iterations 5000] of
                Inl e \<Rightarrow> (Inl e, trained)
              | Inr losses \<Rightarrow> (Inr (), trained @ [Save model ''model_checkpoint''])))"

text \<open>The model that \<open>main\<close> builds from the module constants.\<close>

definition main_model :: model where
  "main_model = assemble (GeometryXTime (Interval (Fin 0) L) (TimeDomain (Fin 0) T_final))"

section \<open>The residual raises\<close>

lemma reaction_rate_raises: "reaction_rate Y temp = Inl (Raised ''AttributeError'')"
  by (simp add: reaction_rate_def dde_math_exp_def bindE_def)

lemma pde_raises: "pde jacobian hessian x y = Inl (Raised ''AttributeError'')"
  by (simp add: pde_def Let_def reaction_rate_raises bindE_def)

text \<open>
  C1. The claim says that the residual function returns the pair
  \<open>(residual_Y, residual_T)\<close> for every batch. The code does not: on every batch, with
  any derivatives, it raises AttributeError where it looks up the exponential, and
  returns no pair.
\<close>

theorem pde_raises_attribute_error:
  "pde jacobian hessian x y = Inl (Raised ''AttributeError'')
   \<and> pde jacobian hessian x y \<noteq> Inr (eq_Y, eq_T)"
  by (simp add: pde_raises)

section \<open>The reaction rate at Y = 1, Temp = 1\<close>

lemma exp_partial_sum: "(\<Sum>m<10. 1 / fact m :: real) = 98641 / 36288"
  by (simp add: numeral_eq_Suc)

lemma fact_10: "fact 10 = (3628800::real)"
  by (simp add: fact_numeral)

lemma exp_one_lower: "271828 / 100000 \<le> exp (1::real)"
proof -
  obtain t :: real where "exp 1 = (\<Sum>m<10. (1 ^ m) / fact m) + (exp t / fact 10) * 1 ^ 10"
    using Maclaurin_exp_le [of 1 10] by blast
  then have s: "exp 1 = 98641 / 36288 + exp t / 3628800"
    by (simp add: exp_partial_sum fact_10)
  have "0 \<le> exp t / 3628800" by simp
  with s show ?thesis by linarith
qed

lemma exp_one_upper: "exp (1::real) \<le> 271829 / 100000"
proof -
  obtain t :: real where t: "\<bar>t\<bar> \<le> \<bar>1\<bar>"
    and "exp 1 = (\<Sum>m<10. (1 ^ m) / fact m) + (exp t / fact 10) * 1 ^ 10"
    using Maclaurin_exp_le [of 1 10] by blast
  then have s: "exp 1 = 98641 / 36288 + exp t / 3628800"
    by (simp add: exp_partial_sum fact_10)
  have "exp t \<le> exp 1" using t by simp
  then have "exp t \<le> 3" using exp_le by linarith
  then have "exp t / 3628800 \<le> 3 / 3628800" by simp
  with s show ?thesis by linarith
qed

lemma exp_50: "exp (50::real) = exp 1 ^ 50"
  using exp_of_nat_mult [of 50 "1::real"] by simp

lemma exp_50_lower: "(271828 / 100000) ^ 50 \<le> exp (50::real)"
  unfolding exp_50 by (rule power_mono [OF exp_one_lower]) simp

lemma exp_50_upper: "exp (50::real) \<le> (271829 / 100000) ^ 50"
  unfolding exp_50 by (rule power_mono [OF exp_one_upper]) simp

lemma exp_minus_50_bounds: "192 / 10 ^ 23 < 10 * exp (- 50 :: real) \<and> 10 * exp (- 50 :: real) < 194 / 10 ^ 23"
proof -
  have e: "exp (- 50 :: real) = 1 / exp 50" by (simp add: exp_minus inverse_eq_divide)
  have pos: "0 < exp (50::real)" by simp
  have lo: "(271828 / 100000) ^ 50 \<le> exp (50::real)" by (rule exp_50_lower)
  have hi: "exp (50::real) \<le> (271829 / 100000) ^ 50" by (rule exp_50_upper)
  have a: "192 / 10 ^ 23 * ((271829 / 100000) ^ 50 :: real) < 10" by (simp add: power_divide)
  have b: "(10::real) < 194 / 10 ^ 23 * (271828 / 100000) ^ 50" by (simp add: power_divide)
  have "192 / 10 ^ 23 * exp (50::real) < 10"
    using a hi by (smt (verit) mult_left_mono divide_nonneg_nonneg zero_le_power)
  moreover have "10 < 194 / 10 ^ 23 * exp (50::real)"
    using b lo by (smt (verit) mult_left_mono divide_nonneg_nonneg zero_le_power)
  ultimately show ?thesis unfolding e using pos by (simp add: field_simps)
qed

text \<open>
  C2. The claim says that the reaction rate at \<open>Y = 1\<close>, \<open>Temp = 1\<close> equals
  \<open>10 * 1 * exp (- 50)\<close>. The code computes no rate there: it raises AttributeError.
  With the program's constants \<open>k = 10\<close>, \<open>Ea = 50\<close>, \<open>R = 1\<close> the closed form
  \<open>k * Y * exp (- Ea / (R * Temp))\<close> is \<open>10 * 1 * exp (- 50)\<close>, a number between
  \<open>1.92e-21\<close> and \<open>1.94e-21\<close>.
\<close>

theorem reaction_rate_regression_raises:
  "reaction_rate [Fin 1] [Fin 1] = Inl (Raised ''AttributeError'')
   \<and> mag k * 1 * exp (- mag Ea / (mag R * 1)) = 10 * 1 * exp (- 50)
   \<and> 192 / 10 ^ 23 < 10 * 1 * exp (- 50 :: real)
   \<and> 10 * 1 * exp (- 50 :: real) < 194 / 10 ^ 23"
  using exp_minus_50_bounds by (simp add: reaction_rate_raises k_def Ea_def R_def)

section \<open>The residual at a zero point\<close>

text \<open>
  C5. The claim says that at a point where \<open>Y\<close>, \<open>Temp\<close> and the six derivatives are zero
  both components of the residual are zero, and that the reaction rate is zero whenever
  \<open>Y = 0\<close>. The code returns neither: at that point the reaction rate and the residual
  both raise AttributeError.
\<close>

theorem zero_point_residual_raises:
  "reaction_rate [Fin 0] [Fin 0] = Inl (Raised ''AttributeError'')
   \<and> pde (\<lambda>y x i j. [Fin 0]) (\<lambda>y x c i j. [Fin 0]) [(Fin 0, Fin 0)] [(Fin 0, Fin 0)]
       = Inl (Raised ''AttributeError'')"
  by (simp add: reaction_rate_raises pde_raises)

section \<open>The conditions\<close>

text \<open>
  C3. The six conditions are two initial conditions and four Dirichlet conditions. At
  \<open>t = 0\<close> the targets are \<open>Y = 1\<close> (component 0) and \<open>Temp = 1\<close> (component 1) at every
  point; on the left boundary the targets are \<open>Y = 1\<close> and \<open>Temp = 1\<close>; on the right
  boundary they are \<open>Y = 0\<close> and \<open>Temp = 1\<close>.
\<close>

theorem six_conditions:
  "map is_initial (ic_bcs (model_data (assemble g))) = [True, True, False, False, False, False]
   \<and> map component (ic_bcs (model_data (assemble g))) = [0, 1, 0, 0, 1, 1]
   \<and> map (\<lambda>c. func c X) (ic_bcs (model_data (assemble g))) =
       [Array (replicate (length X) (Fin 1)), Array (replicate (length X) (Fin 1)),
        Scalar (Fin 1), Scalar (Fin 0), Scalar (Fin 1), Scalar (Fin 1)]
   \<and> map on_region (ic_bcs (model_data (assemble g))) =
       [\<lambda>_ on_initial. Inr on_initial, \<lambda>_ on_initial. Inr on_initial,
        boundary_left, boundary_right, boundary_left, boundary_right]
   \<and> map geom (ic_bcs (model_data (assemble g))) = [g, g, g, g, g, g]"
  by (simp add: assemble_def init_cond_Y_def init_cond_T_def)

section \<open>The domain\<close>

text \<open>
  C4, as stated, fails: for \<open>L = 0\<close> and \<open>T = - 1\<close> the domain is built and no
  InvalidDomain condition is raised.
\<close>

theorem make_domain_counterexample:
  "make_domain (Fin 0) (Fin (- 1)) = Inr (GeometryXTime (Interval (Fin 0) (Fin 0)) (TimeDomain (Fin 0) (Fin (- 1))))
   \<and> make_domain (Fin 0) (Fin (- 1)) \<noteq> Inl (Raised ''InvalidDomain'')"
  by (simp add: make_domain_def)

text \<open>
  C4, amended. Domain construction checks nothing: for every \<open>L\<close> and \<open>T\<close>, positive or
  not, it raises no error and returns the space-time domain \<open>[0, L] x [0, T]\<close>.
\<close>

theorem make_domain_total:
  "make_domain l t = Inr (GeometryXTime (Interval (Fin 0) l) (TimeDomain (Fin 0) t))"
  by (simp add: make_domain_def)

section \<open>Boundary predicates\<close>

lemma isclose_zero: "isclose x0 (Fin 0) \<longleftrightarrow> is_finite x0 \<and> \<bar>mag x0\<bar> \<le> 1 / 10 ^ 8"
  by (cases x0) (simp_all add: isclose_def atol_def rtol_def)

lemma isclose_L: "isclose x0 L \<longleftrightarrow> is_finite x0 \<and> \<bar>mag x0 - 1\<bar> \<le> 1 / 10 ^ 8 + 1 / 10 ^ 5"
  by (cases x0) (simp_all add: isclose_def atol_def rtol_def L_def)

text \<open>
  C6. A point is on the left (right) boundary exactly when the \<open>on_boundary\<close> flag is true
  and its first coordinate is finite and within \<open>atol + rtol * \<bar>b\<bar>\<close> of \<open>b = 0\<close>
  (\<open>b = L\<close>), with \<open>atol = 1e-8\<close> and \<open>rtol = 1e-5\<close>. The test is not equality: a
  coordinate \<open>1e-9\<close> is on the left boundary, \<open>1 + 1e-6\<close> is on the right one, and \<open>1e-7\<close>
  is outside the tolerance of the left one.
\<close>

theorem boundary_predicates:
  "(boundary_left x on_boundary = Inr True \<longleftrightarrow>
      on_boundary \<and> (\<exists>x0 rest. x = x0 # rest \<and> is_finite x0 \<and> \<bar>mag x0 - 0\<bar> \<le> atol + rtol * \<bar>0\<bar>))
   \<and> (boundary_right x on_boundary = Inr True \<longleftrightarrow>
      on_boundary \<and> (\<exists>x0 rest. x = x0 # rest \<and> is_finite x0 \<and> \<bar>mag x0 - mag L\<bar> \<le> atol + rtol * \<bar>mag L\<bar>))
   \<and> atol = 1 / 10 ^ 8 \<and> rtol = 1 / 10 ^ 5 \<and> L = Fin 1
   \<and> boundary_left [Fin (1 / 10 ^ 9), t] True = Inr True
   \<and> boundary_right [Fin (1 + 1 / 10 ^ 6), t] True = Inr True
   \<and> boundary_left [Fin (1 / 10 ^ 7), t] True = Inr False"
  by (cases x) (auto simp: boundary_left_def boundary_right_def isclose_def atol_def rtol_def L_def)

text \<open>
  C10. With \<open>L = 1\<close> no point is on both boundaries, and both predicates are false when
  \<open>on_boundary\<close> is false.
\<close>

theorem boundaries_disjoint:
  "\<not> (boundary_left x on_boundary = Inr True \<and> boundary_right x on_boundary = Inr True)
   \<and> boundary_left x False = Inr False
   \<and> boundary_right x False = Inr False"
proof -
  have "\<not> (isclose x0 (Fin 0) \<and> isclose x0 L)" for x0
    unfolding isclose_zero isclose_L by (auto simp: abs_le_iff)
  then show ?thesis
    by (cases x) (auto simp: boundary_left_def boundary_right_def)
qed

section \<open>Assembly, network and training\<close>

lemma replicate_3: "replicate 3 v = [v, v, v]"
  by (simp add: numeral_3_eq_3)

lemma main_calls:
  "snd (main train) =
     [Compile main_model ''adam'' [Lr (1 / 1000)], Train main_model [Iterations 5000]]
     @ (case train main_model [Iterations 5000] of Inl e \<Rightarrow> [] | Inr losses \<Rightarrow> [Save main_model ''model_checkpoint''])"
  by (simp add: main_def make_domain_def main_model_def Let_def split: sum.split)

text \<open>
  C7. The data of the model that \<open>main\<close> compiles hold the space-time domain, the residual
  function and the six conditions, ask for 2540 interior, 80 boundary, 160 initial and
  10000 test points, and give no reference solution.
\<close>

theorem problem_assembly:
  "call_model (hd (snd (main train))) = main_model
   \<and> geometryxtime (model_data main_model) = GeometryXTime (Interval (Fin 0) L) (TimeDomain (Fin 0) T_final)
   \<and> pde_residual (model_data main_model) = pde
   \<and> length (ic_bcs (model_data main_model)) = 6
   \<and> num_domain (model_data main_model) = 2540
   \<and> num_boundary (model_data main_model) = 80
   \<and> num_initial (model_data main_model) = 160
   \<and> num_test (model_data main_model) = 10000
   \<and> solution (model_data main_model) = None"
  by (simp add: main_calls) (simp add: main_model_def assemble_def)

text \<open>
  C8. The network has input dimension 2, output dimension 2 and three hidden layers of
  width 50, with tanh activation and Glorot normal initialisation. The model is compiled
  with adam at learning rate \<open>1e-3\<close>, and trained once, for 5000 iterations, with no
  callbacks argument (so no early stopping is asked for).
\<close>

theorem network_and_training:
  "layer_sizes (model_net main_model) = [2, 50, 50, 50, 2]
   \<and> hd (layer_sizes (model_net main_model)) = 2
   \<and> last (layer_sizes (model_net main_model)) = 2
   \<and> butlast (tl (layer_sizes (model_net main_model))) = replicate 3 50
   \<and> activation (model_net main_model) = ''tanh''
   \<and> kernel_initializer (model_net main_model) = ''Glorot normal''
   \<and> take 2 (snd (main train)) = [Compile main_model ''adam'' [Lr (1 / 1000)], Train main_model [Iterations 5000]]
   \<and> filter is_train (snd (main train)) = [Train main_model [Iterations 5000]]"
  by (simp add: main_calls split: sum.split) (simp add: main_model_def assemble_def replicate_3)

text \<open>
  C9. When the training call returns, whatever the loss history it returns, the run
  succeeds and makes exactly one save call, its last call, named \<open>model_checkpoint\<close>.
\<close>

theorem checkpoint_saved:
  assumes "train main_model [Iterations 5000] = Inr losses"
  shows "fst (main train) = Inr ()
    \<and> filter is_save (snd (main train)) = [Save main_model ''model_checkpoint'']
    \<and> last (snd (main train)) = Save main_model ''model_checkpoint''"
  using assms by (simp add: main_calls) (simp add: main_def make_domain_def main_model_def Let_def)

theorem checkpoint_saved_witness:
  "fst (main (\<lambda>m kw. Inr [Fin 1, NaN, PInf])) = Inr ()
    \<and> filter is_save (snd (main (\<lambda>m kw. Inr [Fin 1, NaN, PInf]))) = [Save main_model ''model_checkpoint'']
    \<and> last (snd (main (\<lambda>m kw. Inr [Fin 1, NaN, PInf]))) = Save main_model ''model_checkpoint''"
  using checkpoint_saved [of "\<lambda>m kw. Inr [Fin 1, NaN, PInf]" "[Fin 1, NaN, PInf]"] by simp

end
